theory Spec2Isabelle
  imports Complex_Main
begin

section \<open>Python values\<close>

text \<open>
  The tracker keeps the parsed ephemeris document in the module variable \<open>data\<close>: nested
  dictionaries with string keys, lists and strings as the XML parser delivers them, or the
  empty list after \<open>/delete-data\<close>. The handlers subscript, iterate and compare these
  values, and several of their statements raise. The values are therefore modelled as
  they are at run time, and every raise is an \<open>Inl\<close> result.

  A \<open>float\<close> is read as the real number it denotes: arithmetic on floats is exact in
  this model, so rounding, overflow and NaN are outside it. Strings are byte strings;
  the parsing of integers covers the ASCII literals, of any length.
\<close>

datatype pyerr = TypeError | KeyError | ValueError | IndexError | NameError

datatype pyval =
    VNone
  | VInt int
  | VFloat real
  | VStr string
  | VList "pyval list"
  | VDict "(string \<times> pyval) list"
  | VFunction string

definition bindE :: "pyerr + 'a \<Rightarrow> ('a \<Rightarrow> pyerr + 'b) \<Rightarrow> pyerr + 'b" where
  "bindE m f = (case m of Inl e \<Rightarrow> Inl e | Inr x \<Rightarrow> f x)"

text \<open>Indexing a sequence of length \<open>n\<close> with \<open>i\<close>: negative indices count from the end.\<close>

definition seq_index :: "nat \<Rightarrow> int \<Rightarrow> nat option" where
  "seq_index n i =
     (let j = (if i < 0 then int n + i else i)
      in if 0 \<le> j \<and> j < int n then Some (nat j) else None)"

text \<open>
  \<open>v[k]\<close>. The keys of every dictionary of the document are strings, so a hashable key
  of another type is absent (\<open>KeyError\<close>) and a list or dictionary as key is unhashable
  (\<open>TypeError\<close>). \<open>None\<close>, numbers and function objects are not subscriptable.
\<close>

fun getitem :: "pyval \<Rightarrow> pyval \<Rightarrow> pyerr + pyval" where
  "getitem (VDict kvs) (VStr k) = (case map_of kvs k of Some v \<Rightarrow> Inr v | None \<Rightarrow> Inl KeyError)"
| "getitem (VDict kvs) (VList ks) = Inl TypeError"
| "getitem (VDict kvs) (VDict ks) = Inl TypeError"
| "getitem (VDict kvs) k = Inl KeyError"
| "getitem (VList xs) (VInt i) =
     (case seq_index (length xs) i of Some j \<Rightarrow> Inr (xs ! j) | None \<Rightarrow> Inl IndexError)"
| "getitem (VList xs) k = Inl TypeError"
| "getitem (VStr s) (VInt i) =
     (case seq_index (length s) i of Some j \<Rightarrow> Inr (VStr [s ! j]) | None \<Rightarrow> Inl IndexError)"
| "getitem (VStr s) k = Inl TypeError"
| "getitem v k = Inl TypeError"

text \<open>\<open>len(v)\<close> and the items a \<open>for\<close> loop over \<open>v\<close> visits (a dictionary yields its keys).\<close>

fun py_len :: "pyval \<Rightarrow> pyerr + int" where
  "py_len (VList xs) = Inr (int (length xs))"
| "py_len (VDict kvs) = Inr (int (length kvs))"
| "py_len (VStr s) = Inr (int (length s))"
| "py_len v = Inl TypeError"

fun py_iter :: "pyval \<Rightarrow> pyerr + pyval list" where
  "py_iter (VList xs) = Inr xs"
| "py_iter (VDict kvs) = Inr (map (\<lambda>kv. VStr (fst kv)) kvs)"
| "py_iter (VStr s) = Inr (map (\<lambda>c. VStr [c]) s)"
| "py_iter v = Inl TypeError"

text \<open>Truth value of \<open>if v:\<close>.\<close>

fun truthy :: "pyval \<Rightarrow> bool" where
  "truthy VNone = False"
| "truthy (VInt i) = (i \<noteq> 0)"
| "truthy (VFloat r) = (r \<noteq> 0)"
| "truthy (VStr s) = (s \<noteq> [])"
| "truthy (VList xs) = (xs \<noteq> [])"
| "truthy (VDict kvs) = (kvs \<noteq> [])"
| "truthy (VFunction f) = True"

text \<open>\<open>c == v\<close> and \<open>c >= v\<close> for an integer \<open>c\<close>: a number compares by value, any other
  value is unequal to an integer, and ordering an integer against it is a \<open>TypeError\<close>.\<close>

fun int_eq :: "int \<Rightarrow> pyval \<Rightarrow> bool" where
  "int_eq c (VInt i) = (c = i)"
| "int_eq c (VFloat r) = (real_of_int c = r)"
| "int_eq c v = False"

fun int_ge :: "int \<Rightarrow> pyval \<Rightarrow> pyerr + bool" where
  "int_ge c (VInt i) = Inr (c \<ge> i)"
| "int_ge c (VFloat r) = Inr (real_of_int c \<ge> r)"
| "int_ge c v = Inl TypeError"

text \<open>
  \<open>x in v\<close>: membership in a list, substring of a string (the left operand must be a
  string), key of a dictionary. Equality of list members is equality of values, which is
  what \<open>==\<close> computes whenever one side is a string.
\<close>

fun contains :: "string \<Rightarrow> string \<Rightarrow> bool" where
  "contains sub [] = (sub = [])"
| "contains sub (c # cs) = (take (length sub) (c # cs) = sub \<or> contains sub cs)"

fun py_in :: "pyval \<Rightarrow> pyval \<Rightarrow> pyerr + bool" where
  "py_in x (VList xs) = Inr (x \<in> set xs)"
| "py_in (VStr sub) (VStr s) = Inr (contains sub s)"
| "py_in x (VStr s) = Inl TypeError"
| "py_in (VStr k) (VDict kvs) = Inr (k \<in> fst ` set kvs)"
| "py_in (VList ks) (VDict kvs) = Inl TypeError"
| "py_in (VDict ks) (VDict kvs) = Inl TypeError"
| "py_in x (VDict kvs) = Inr False"
| "py_in x v = Inl TypeError"

text \<open>The slices \<open>v[i:j]\<close> with \<open>0 \<le> i \<le> j\<close> and \<open>v[:-k]\<close>.\<close>

fun py_slice :: "pyval \<Rightarrow> nat \<Rightarrow> nat \<Rightarrow> pyerr + pyval" where
  "py_slice (VStr s) i j = Inr (VStr (take (j - i) (drop i s)))"
| "py_slice (VList xs) i j = Inr (VList (take (j - i) (drop i xs)))"
| "py_slice v i j = Inl TypeError"

fun py_drop_last :: "pyval \<Rightarrow> nat \<Rightarrow> pyerr + pyval" where
  "py_drop_last (VStr s) k = Inr (VStr (take (length s - k) s))"
| "py_drop_last (VList xs) k = Inr (VList (take (length xs - k) xs))"
| "py_drop_last v k = Inl TypeError"

subsection \<open>The built-in \<open>int\<close>\<close>

text \<open>
  \<open>int(s)\<close> on a string: white space is stripped at both ends, then an optional sign,
  then decimal digits, where single underscores may separate digits. Anything else is a
  \<open>ValueError\<close>.
\<close>

definition is_space :: "char \<Rightarrow> bool" where
  "is_space c \<longleftrightarrow> of_char c \<in> {9::nat, 10, 11, 12, 13, 32}"

definition is_digit :: "char \<Rightarrow> bool" where
  "is_digit c \<longleftrightarrow> 48 \<le> (of_char c :: nat) \<and> (of_char c :: nat) \<le> 57"

definition digit_val :: "char \<Rightarrow> int" where
  "digit_val c = int (of_char c) - 48"

definition strip :: "string \<Rightarrow> string" where
  "strip s = rev (dropWhile is_space (rev (dropWhile is_space s)))"

fun int_body :: "bool \<Rightarrow> int \<Rightarrow> string \<Rightarrow> int option" where
  "int_body prev acc [] = (if prev then Some acc else None)"
| "int_body prev acc (c # cs) =
     (if is_digit c then int_body True (10 * acc + digit_val c) cs
      else if c = CHR ''_'' \<and> prev then int_body False acc cs
      else None)"

definition int_of_str :: "string \<Rightarrow> pyerr + int" where
  "int_of_str s =
     (case strip s of
        [] \<Rightarrow> Inl ValueError
      | c # cs \<Rightarrow>
          (case (if c = CHR ''-'' then map_option uminus (int_body False 0 cs)
                 else if c = CHR ''+'' then int_body False 0 cs
                 else int_body False 0 (c # cs)) of
             None \<Rightarrow> Inl ValueError
           | Some n \<Rightarrow> Inr n))"

fun py_int :: "pyval \<Rightarrow> pyerr + int" where
  "py_int (VStr s) = int_of_str s"
| "py_int (VInt i) = Inr i"
| "py_int (VFloat r) = Inr (if r < 0 then \<lceil>r\<rceil> else \<lfloor>r\<rfloor>)"
| "py_int v = Inl TypeError"

section \<open>The document and the request\<close>

text \<open>\<open>data['ndm']['oem']['body']['segment']['data']['stateVector']\<close>, and the other
  paths into the document the handlers read.\<close>

fun getpath :: "pyval \<Rightarrow> string list \<Rightarrow> pyerr + pyval" where
  "getpath v [] = Inr v"
| "getpath v (k # ks) = bindE (getitem v (VStr k)) (\<lambda>w. getpath w ks)"

definition state_vectors :: "pyval \<Rightarrow> pyerr + pyval" where
  "state_vectors data = getpath data [''ndm'', ''oem'', ''body'', ''segment'', ''data'', ''stateVector'']"

text \<open>\<open>request.args.get(key, default)\<close>: the query string maps names to strings.\<close>

type_synonym args = "string \<rightharpoonup> string"

definition args_get :: "args \<Rightarrow> string \<Rightarrow> pyval \<Rightarrow> pyval" where
  "args_get a k dflt = (case a k of Some s \<Rightarrow> VStr s | None \<Rightarrow> dflt)"

section \<open>\<open>/epochs\<close>\<close>

text \<open>
  The loop of \<open>epochs\<close> over the state vectors, with its three variables \<open>count\<close>,
  \<open>offset_count\<close> and \<open>epochsList\<close>. \<open>limit\<close> and \<open>offset\<close> are Python values: an
  integer after \<open>int(...)\<close>, or the empty string, which the guards \<open>if offset:\<close> and
  \<open>if limit:\<close> let through unconverted.
\<close>

fun epochs_loop :: "pyval \<Rightarrow> pyval \<Rightarrow> pyval list \<Rightarrow> int \<Rightarrow> int \<Rightarrow> pyval list \<Rightarrow> pyerr + pyval list" where
  "epochs_loop limit offset [] count offset_count epochsList = Inr epochsList"
| "epochs_loop limit offset (d # ds) count offset_count epochsList =
     (if int_eq count limit then Inr epochsList
      else case int_ge offset_count offset of
             Inl e \<Rightarrow> Inl e
           | Inr True \<Rightarrow>
               (case getitem d (VStr ''EPOCH'') of
                  Inl e \<Rightarrow> Inl e
                | Inr ep \<Rightarrow> epochs_loop limit offset ds (count + 1) (offset_count + 1) (epochsList @ [ep]))
           | Inr False \<Rightarrow> epochs_loop limit offset ds count (offset_count + 1) epochsList)"

text \<open>\<open>if v: try: v = int(v) except ValueError: return ...\<close>: \<open>None\<close> is the handler's
  \<open>ValueError\<close> branch; any other exception propagates.\<close>

definition convert_param :: "pyval \<Rightarrow> pyerr + pyval option" where
  "convert_param v =
     (if truthy v
      then (case py_int v of
              Inr n \<Rightarrow> Inr (Some (VInt n))
            | Inl ValueError \<Rightarrow> Inr None
            | Inl e \<Rightarrow> Inl e)
      else Inr (Some v))"

definition epochs :: "pyval \<Rightarrow> args \<Rightarrow> pyerr + pyval" where
  "epochs data a =
     (if data = VList [] then Inr (VList [])
      else
        let offset = args_get a ''offset'' (VInt 0) in
        bindE (state_vectors data) (\<lambda>sv.
        bindE (py_len sv) (\<lambda>n.
        let limit = args_get a ''limit'' (VInt n) in
        bindE (convert_param offset) (\<lambda>offset'.
        case offset' of
          None \<Rightarrow> Inr (VStr ''Error: Offset parameter must be greater than 0.'')
        | Some offset \<Rightarrow>
            bindE (convert_param limit) (\<lambda>limit'.
            case limit' of
              None \<Rightarrow> Inr (VStr ''Error: Limit parameter must be greater than 0.'')
            | Some limit \<Rightarrow>
                bindE (state_vectors data) (\<lambda>sv.
                bindE (py_iter sv) (\<lambda>ds.
                bindE (epochs_loop limit offset ds 0 0 []) (\<lambda>epochsList.
                Inr (VList epochsList)))))))))"

section \<open>\<open>/epochs/<epoch>\<close>\<close>

text \<open>The loop that collects \<open>allEpochs\<close>, and \<open>allEpochs.index(epoch)\<close>.\<close>

fun collect_epochs :: "pyval list \<Rightarrow> pyval list \<Rightarrow> pyerr + pyval list" where
  "collect_epochs [] allEpochs = Inr allEpochs"
| "collect_epochs (d # ds) allEpochs =
     (case getitem d (VStr ''EPOCH'') of
        Inl e \<Rightarrow> Inl e
      | Inr ep \<Rightarrow> collect_epochs ds (allEpochs @ [ep]))"

fun py_index :: "pyval list \<Rightarrow> pyval \<Rightarrow> pyerr + nat" where
  "py_index [] x = Inl ValueError"
| "py_index (y # ys) x =
     (if y = x then Inr 0
      else case py_index ys x of Inl e \<Rightarrow> Inl e | Inr i \<Rightarrow> Inr (Suc i))"

definition state_vector :: "pyval \<Rightarrow> pyval \<Rightarrow> pyerr + pyval" where
  "state_vector data epoch =
     (if data = VList [] then Inr (VList [])
      else
        bindE (state_vectors data) (\<lambda>sv.
        bindE (py_iter sv) (\<lambda>ds.
        bindE (collect_epochs ds []) (\<lambda>allEpochs.
        if epoch \<in> set allEpochs then
          bindE (py_index allEpochs epoch) (\<lambda>specific.
          bindE (state_vectors data) (\<lambda>sv.
          getitem sv (VInt (int specific))))
        else Inr (VStr ''Please enter a valid Epoch time stamp.\<newline>'')))))"

section \<open>\<open>/epochs/<epoch>/speed\<close>\<close>

text \<open>
  \<open>float(v)\<close>. The built-in \<open>float\<close> on strings is a parameter of the model,
  \<open>float_of\<close>, with \<open>Inl ValueError\<close> where it raises.
\<close>

fun py_float :: "(string \<Rightarrow> pyerr + real) \<Rightarrow> pyval \<Rightarrow> pyerr + real" where
  "py_float float_of (VStr s) = float_of s"
| "py_float float_of (VInt i) = Inr (real_of_int i)"
| "py_float float_of (VFloat r) = Inr r"
| "py_float float_of v = Inl TypeError"

text \<open>\<open>float(epochData[k]['#text'])\<close>\<close>

definition text_float :: "(string \<Rightarrow> pyerr + real) \<Rightarrow> pyval \<Rightarrow> string \<Rightarrow> pyerr + real" where
  "text_float float_of epochData k =
     bindE (getitem epochData (VStr k)) (\<lambda>c.
     bindE (getitem c (VStr ''#text'')) (\<lambda>t.
     py_float float_of t))"

definition speed :: "(string \<Rightarrow> pyerr + real) \<Rightarrow> pyval \<Rightarrow> args \<Rightarrow> pyval \<Rightarrow> pyerr + pyval" where
  "speed float_of data a epoch =
     (if data = VList [] then Inr (VList [])
      else
        bindE (epochs data a) (\<lambda>allEpochs.
        bindE (py_in epoch allEpochs) (\<lambda>present.
        if present then
          bindE (state_vector data epoch) (\<lambda>epochData.
          bindE (text_float float_of epochData ''X_DOT'') (\<lambda>x_dot.
          bindE (text_float float_of epochData ''Y_DOT'') (\<lambda>y_dot.
          bindE (text_float float_of epochData ''Z_DOT'') (\<lambda>z_dot.
          Inr (VDict [(''value'', VFloat (sqrt (x_dot\<^sup>2 + y_dot\<^sup>2 + z_dot\<^sup>2))),
                      (''units'', VStr ''km/s'')])))))
        else Inr (VStr ''Please enter a valid Epoch time stamp.''))))"

section \<open>\<open>/delete-data\<close>, \<open>/comment\<close>, \<open>/header\<close>, \<open>/metadata\<close>\<close>

text \<open>\<open>delete_data\<close> rebinds the module variable: the new value of \<open>data\<close> and the reply.\<close>

definition delete_data :: "pyval \<Rightarrow> pyval \<times> string" where
  "delete_data data = (VList [], ''NASA ISS trajectory data set has been deleted.\<newline>'')"

definition comment_list :: "pyval \<Rightarrow> pyerr + pyval" where
  "comment_list data =
     (if data = VList [] then Inr (VList [])
      else
        bindE (getpath data [''ndm'', ''oem'', ''body'', ''segment'', ''data'', ''COMMENT'']) (\<lambda>cs.
        bindE (py_iter cs) (\<lambda>commentList.
        Inr (VList commentList))))"

definition header_dict :: "pyval \<Rightarrow> pyerr + pyval" where
  "header_dict data =
     (if data = VList [] then Inr (VList [])
      else getpath data [''ndm'', ''oem'', ''header''])"

definition metadata :: "pyval \<Rightarrow> pyerr + pyval" where
  "metadata data =
     (if data = VList [] then Inr (VList [])
      else getpath data [''ndm'', ''oem'', ''body'', ''segment'', ''metadata''])"

section \<open>\<open>/epochs/<epoch>/location\<close>\<close>

definition MEAN_EARTH_RADIUS :: real where
  "MEAN_EARTH_RADIUS = 6371"

text \<open>\<open>math.degrees\<close> and \<open>math.atan2\<close>.\<close>

definition degrees :: "real \<Rightarrow> real" where
  "degrees r = r * (180 / pi)"

definition atan2 :: "real \<Rightarrow> real \<Rightarrow> real" where
  "atan2 y x =
     (if 0 < x then arctan (y / x)
      else if x < 0 \<and> 0 \<le> y then arctan (y / x) + pi
      else if x < 0 then arctan (y / x) - pi
      else if 0 < y then pi / 2
      else if y < 0 then - (pi / 2)
      else 0)"

text \<open>\<open>d[k] = v\<close> on a dictionary: an existing key keeps its place, a new one goes last.\<close>

fun setitem :: "(string \<times> pyval) list \<Rightarrow> string \<Rightarrow> pyval \<Rightarrow> (string \<times> pyval) list" where
  "setitem [] k v = [(k, v)]"
| "setitem (p # ps) k v = (if fst p = k then (k, v) # ps else p # setitem ps k v)"

text \<open>
  Lines 284 to 287, the \<open>if\<close>/\<open>elif\<close> on the raw longitude. There is no \<open>else\<close>:
  a longitude within the range leaves \<open>locationData\<close> as it was.
\<close>

definition set_longitude :: "real \<Rightarrow> (string \<times> pyval) list \<Rightarrow> (string \<times> pyval) list" where
  "set_longitude longitude locationData =
     (if longitude > 180 then setitem locationData ''LONGITUDE'' (VFloat (longitude - 360))
      else if longitude < - 180 then setitem locationData ''LONGITUDE'' (VFloat (longitude + 360))
      else locationData)"

text \<open>
  The handler. Line 274 subscripts the function \<open>state_vector\<close> where \<open>epochData\<close> is
  meant, and lines 292 and 296 name \<open>geocode\<close> and \<open>geoposition\<close>, which the module
  does not define. When the epoch is not listed, the function ends without \<open>return\<close>.
\<close>

definition location :: "(string \<Rightarrow> pyerr + real) \<Rightarrow> pyval \<Rightarrow> args \<Rightarrow> pyval \<Rightarrow> pyerr + pyval" where
  "location float_of data a epoch =
     (let locationData = [] in
      if data = VList [] then Inr (VList [])
      else
        bindE (epochs data a) (\<lambda>allEpochs.
        bindE (py_in epoch allEpochs) (\<lambda>present.
        if present then
          bindE (state_vector data epoch) (\<lambda>epochData.
          bindE (getitem (VFunction ''state_vector'') (VStr ''EPOCH'')) (\<lambda>epoch.
          bindE (bindE (py_slice epoch 9 11) py_int) (\<lambda>hrs.
          bindE (bindE (py_slice epoch 12 14) py_int) (\<lambda>mins.
          bindE (text_float float_of epochData ''X'') (\<lambda>x.
          bindE (text_float float_of epochData ''Y'') (\<lambda>y.
          bindE (text_float float_of epochData ''Z'') (\<lambda>z.
          let locationData = setitem locationData ''LATITUDE''
                (VFloat (degrees (atan2 z (sqrt (x\<^sup>2 + y\<^sup>2)))));
              longitude = degrees (atan2 y x)
                - ((real_of_int hrs - 12) + (real_of_int mins / 60)) * (360 / 24) + 32;
              locationData = set_longitude longitude locationData;
              altitude = sqrt (x\<^sup>2 + y\<^sup>2 + z\<^sup>2) - MEAN_EARTH_RADIUS;
              locationData = setitem locationData ''ALTITUDE''
                (VDict [(''value'', VFloat altitude), (''units'', VStr ''km'')])
          in
          bindE (Inl NameError) (\<lambda>geolocation.
          bindE (if geolocation = VNone
                 then Inr (VStr ''Error, the geolocation data is not available because the ISS is over the ocean.'')
                 else Inl NameError) (\<lambda>geoposition.
          Inr (VDict (setitem locationData ''GEOPOSITION'' geoposition)))))))))))
        else Inr VNone)))"

section \<open>\<open>/now\<close>\<close>

text \<open>
  The clock and the calendar are parameters: \<open>time_now\<close> is what \<open>time.time()\<close>
  returns during the request, and \<open>epoch_time s\<close> is
  \<open>time.mktime(time.strptime(s, '%Y-%jT%H:%M:%S'))\<close>, with \<open>Inl ValueError\<close> where
  \<open>strptime\<close> rejects the string.
\<close>

fun parse_time :: "(string \<Rightarrow> pyerr + real) \<Rightarrow> pyval \<Rightarrow> pyerr + real" where
  "parse_time epoch_time (VStr s) = epoch_time s"
| "parse_time epoch_time v = Inl TypeError"

text \<open>The loop of \<open>now\<close>, with its variables \<open>allEpochs\<close>, \<open>minDifference\<close> and
  \<open>minStateVector\<close>.\<close>

fun now_loop :: "real \<Rightarrow> (string \<Rightarrow> pyerr + real) \<Rightarrow> pyval list \<Rightarrow> pyval list \<Rightarrow> real \<Rightarrow> pyval
    \<Rightarrow> pyerr + (pyval list \<times> real \<times> pyval)" where
  "now_loop time_now epoch_time [] allEpochs minDifference minStateVector =
     Inr (allEpochs, minDifference, minStateVector)"
| "now_loop time_now epoch_time (d # ds) allEpochs minDifference minStateVector =
     (case getitem d (VStr ''EPOCH'') of
        Inl e \<Rightarrow> Inl e
      | Inr epoch \<Rightarrow>
          (case bindE (py_drop_last epoch 1) (parse_time epoch_time) of
             Inl e \<Rightarrow> Inl e
           | Inr timeEpoch \<Rightarrow>
               (let difference = time_now - timeEpoch in
                if \<bar>difference\<bar> < \<bar>minDifference\<bar>
                then now_loop time_now epoch_time ds (allEpochs @ [epoch]) difference epoch
                else now_loop time_now epoch_time ds (allEpochs @ [epoch]) minDifference minStateVector)))"

text \<open>
  The handler, with the closing parentheses that lines 337 and 338 lack. Line 312 reads
  the state vectors before the test for deleted data, line 320 subscripts the document
  \<open>data\<close> with \<open>0\<close>, and the function ends without \<open>return\<close>.
\<close>

definition now :: "real \<Rightarrow> (string \<Rightarrow> pyerr + real) \<Rightarrow> (string \<Rightarrow> pyerr + real) \<Rightarrow> pyval \<Rightarrow> args
    \<Rightarrow> pyerr + pyval" where
  "now time_now epoch_time float_of data a =
     bindE (state_vectors data) (\<lambda>stateVectors.
     let infoNow = [] in
     if data = VList [] then Inr (VList [])
     else
       bindE (getitem data (VInt 0)) (\<lambda>d0.
       bindE (getitem d0 (VStr ''EPOCH'')) (\<lambda>e0.
       bindE (py_drop_last e0 5) (\<lambda>s0.
       bindE (parse_time epoch_time s0) (\<lambda>t0.
       let minDifference = time_now - t0 in
       bindE (getitem data (VInt 0)) (\<lambda>minStateVector.
       bindE (state_vectors data) (\<lambda>sv.
       bindE (py_iter sv) (\<lambda>ds.
       bindE (now_loop time_now epoch_time ds [] minDifference minStateVector) (\<lambda>r.
       let minDifference = fst (snd r); minStateVector = snd (snd r) in
       bindE (getitem minStateVector (VStr ''EPOCH'')) (\<lambda>closest.
       let infoNow = setitem infoNow ''closest_epoch'' closest;
           infoNow = setitem infoNow ''time difference (sec)'' (VFloat minDifference)
       in
       bindE (getitem minStateVector (VStr ''EPOCH'')) (\<lambda>e1.
       bindE (location float_of data a e1) (\<lambda>loc.
       let infoNow = setitem infoNow ''location'' loc in
       bindE (getitem minStateVector (VStr ''EPOCH'')) (\<lambda>e2.
       bindE (speed float_of data a e2) (\<lambda>sp.
       let infoNow = setitem infoNow ''speed'' sp in
       Inr VNone))))))))))))))"

section \<open>Loaded documents\<close>

text \<open>
  The document is loaded with the state vectors \<open>svs\<close> when the path to
  \<open>stateVector\<close> leads to that list and every member has a string under \<open>EPOCH\<close>.
  This is the shape of a parsed feed with two or more state vectors; the XML parser
  delivers a single one as a dictionary, not as a list of one.
  \<open>epoch_of d\<close> is \<open>d['EPOCH']\<close> where it exists.
\<close>

definition epoch_of :: "pyval \<Rightarrow> pyval" where
  "epoch_of d = (case getitem d (VStr ''EPOCH'') of Inr v \<Rightarrow> v | Inl e \<Rightarrow> VNone)"

definition has_epoch :: "pyval \<Rightarrow> bool" where
  "has_epoch d = (case getitem d (VStr ''EPOCH'') of Inr (VStr e) \<Rightarrow> True | _ \<Rightarrow> False)"

definition loaded :: "pyval \<Rightarrow> pyval list \<Rightarrow> bool" where
  "loaded data svs \<longleftrightarrow> state_vectors data = Inr (VList svs) \<and> list_all has_epoch svs"

text \<open>
  The request carries the integer \<open>n\<close> for the parameter \<open>k\<close>: either the parameter
  is supplied and \<open>int\<close> reads \<open>n\<close> from it, or it is not supplied and \<open>n\<close> is the default.
\<close>

definition param :: "args \<Rightarrow> string \<Rightarrow> int \<Rightarrow> int \<Rightarrow> bool" where
  "param a k dflt n = (case a k of Some s \<Rightarrow> int_of_str s = Inr n | None \<Rightarrow> n = dflt)"

text \<open>The part of a list that \<open>offset\<close> and \<open>limit\<close> select, for any two integers.\<close>

definition window :: "int \<Rightarrow> int \<Rightarrow> 'a list \<Rightarrow> 'a list" where
  "window offset limit xs =
     (if limit < 0 then drop (nat offset) xs else take (nat limit) (drop (nat offset) xs))"

text \<open>A document in the shape the XML parser delivers, for the examples.\<close>

definition component :: "string \<Rightarrow> string \<Rightarrow> pyval" where
  "component units txt = VDict [(''@units'', VStr units), (''#text'', VStr txt)]"

definition vector :: "string \<Rightarrow> string \<Rightarrow> string \<Rightarrow> string \<Rightarrow> string \<Rightarrow> string \<Rightarrow> string \<Rightarrow> pyval" where
  "vector e x y z x_dot y_dot z_dot =
     VDict [(''EPOCH'', VStr e),
            (''X'', component ''km'' x), (''Y'', component ''km'' y), (''Z'', component ''km'' z),
            (''X_DOT'', component ''km/s'' x_dot), (''Y_DOT'', component ''km/s'' y_dot),
            (''Z_DOT'', component ''km/s'' z_dot)]"

definition document :: "pyval list \<Rightarrow> pyval" where
  "document svs =
     VDict [(''ndm'',
       VDict [(''oem'',
         VDict [(''header'', VDict [(''CREATION_DATE'', VStr ''2023-047T19:13:15.000Z''),
                                   (''ORIGINATOR'', VStr ''JSC'')]),
                (''body'',
           VDict [(''segment'',
             VDict [(''metadata'', VDict [(''OBJECT_NAME'', VStr ''ISS''),
                                         (''REF_FRAME'', VStr ''EME2000'')]),
                    (''data'',
               VDict [(''COMMENT'', VList [VStr ''Units are in kg and m^2'', VNone]),
                      (''stateVector'', VList svs)])])])])])]"

definition example_vectors :: "pyval list" where
  "example_vectors =
     [vector ''2023-048T12:00:00.000Z'' ''-5097'' ''1610'' ''-4194'' ''3'' ''4'' ''0'',
      vector ''2023-048T12:04:00.000Z'' ''-5998'' ''272'' ''-3177'' ''-2'' ''-6'' ''4'',
      vector ''2023-048T12:08:00.000Z'' ''-6466'' ''-1085'' ''-1931'' ''0'' ''-6'' ''5'']"

definition example_data :: pyval where
  "example_data = document example_vectors"

text \<open>On an integer literal, \<open>float\<close> returns the float of the integer \<open>int\<close> reads.\<close>

definition float_of_literal :: "string \<Rightarrow> pyerr + real" where
  "float_of_literal s = (case int_of_str s of Inr n \<Rightarrow> Inr (real_of_int n) | Inl e \<Rightarrow> Inl e)"

section \<open>Basic facts\<close>

lemma bindE_Inr [simp]: "bindE (Inr x) f = f x"
  by (simp add: bindE_def)

lemma bindE_Inl [simp]: "bindE (Inl e) f = Inl e"
  by (simp add: bindE_def)

lemmas int_eval = int_of_str_def strip_def is_space_def is_digit_def digit_val_def

lemmas doc_eval = example_data_def example_vectors_def document_def vector_def component_def
  state_vectors_def loaded_def has_epoch_def epoch_of_def

lemma loaded_example: "loaded example_data example_vectors"
  by (simp add: doc_eval)

lemma loaded_not_deleted: "loaded data svs \<Longrightarrow> data \<noteq> VList []"
  by (auto simp: loaded_def state_vectors_def)

lemma has_epoch_getitem: "has_epoch d \<Longrightarrow> getitem d (VStr ''EPOCH'') = Inr (epoch_of d)"
  by (auto simp: has_epoch_def epoch_of_def split: sum.splits pyval.splits)

lemma int_of_str_nonempty: "int_of_str s = Inr n \<Longrightarrow> s \<noteq> []"
  by (auto simp: int_of_str_def strip_def)

lemma int_of_str_error: "int_of_str s = Inl e \<Longrightarrow> e = ValueError"
  by (auto simp: int_of_str_def split: list.splits option.splits if_splits)

section \<open>The listing\<close>

text \<open>
  The loop with integer \<open>limit\<close> and \<open>offset\<close>, started in any state. Once \<open>count\<close>
  is past \<open>limit\<close> the test \<open>count == limit\<close> never holds again, and the loop runs to
  the end of the list.
\<close>

lemma epochs_loop_ints:
  "list_all has_epoch ds \<Longrightarrow>
   epochs_loop (VInt l) (VInt ofs) ds c oc acc =
     Inr (acc @ (if c \<le> l then take (nat (l - c)) (drop (nat (ofs - oc)) (map epoch_of ds))
                 else drop (nat (ofs - oc)) (map epoch_of ds)))"
proof (induction ds arbitrary: c oc acc)
  case Nil
  then show ?case by simp
next
  case (Cons d ds)
  from Cons.prems have d: "getitem d (VStr ''EPOCH'') = Inr (epoch_of d)"
    and ds: "list_all has_epoch ds"
    by (simp_all add: has_epoch_getitem)
  show ?case
  proof (cases "c = l")
    case True
    then show ?thesis by simp
  next
    case neq: False
    show ?thesis
    proof (cases "ofs \<le> oc")
      case True
      then have z: "nat (ofs - oc) = 0" "nat (ofs - (oc + 1)) = 0" by simp_all
      show ?thesis
      proof (cases "c < l")
        case True
        then have "nat (l - c) = Suc (nat (l - (c + 1)))" by simp
        with True neq \<open>ofs \<le> oc\<close> z show ?thesis
          using Cons.IH [OF ds, of "c + 1" "oc + 1" "acc @ [epoch_of d]"] d by simp
      next
        case False
        with neq \<open>ofs \<le> oc\<close> z show ?thesis
          using Cons.IH [OF ds, of "c + 1" "oc + 1" "acc @ [epoch_of d]"] d by simp
      qed
    next
      case False
      then have "nat (ofs - oc) = Suc (nat (ofs - (oc + 1)))" by simp
      with False neq show ?thesis
        using Cons.IH [OF ds, of c "oc + 1" acc] by simp
    qed
  qed
qed

lemma convert_param_value:
  "param a k dflt n \<Longrightarrow> convert_param (args_get a k (VInt dflt)) = Inr (Some (VInt n))"
  by (auto simp: param_def args_get_def convert_param_def dest: int_of_str_nonempty
      split: option.splits)

lemma epochs_window:
  assumes "loaded data svs"
    and "param a ''offset'' 0 ofs"
    and "param a ''limit'' (int (length svs)) l"
  shows "epochs data a = Inr (VList (window ofs l (map epoch_of svs)))"
proof -
  from assms(1) have sv: "state_vectors data = Inr (VList svs)" and wf: "list_all has_epoch svs"
    by (simp_all add: loaded_def)
  have nd: "data \<noteq> VList []" using assms(1) by (rule loaded_not_deleted)
  have loop: "epochs_loop (VInt l) (VInt ofs) svs 0 0 [] = Inr (window ofs l (map epoch_of svs))"
    using epochs_loop_ints [OF wf, of l ofs 0 0 "[]"] by (auto simp: window_def)
  show ?thesis
    using nd sv convert_param_value [OF assms(2)] convert_param_value [OF assms(3)] loop
    by (simp add: epochs_def)
qed

text \<open>
  C1: for non-negative integers \<open>offset\<close> and \<open>limit\<close>, supplied in the query string
  or left to their defaults, and a loaded document, \<open>/epochs\<close> returns the epochs of the
  state vectors in document order, the first \<open>offset\<close> skipped and at most \<open>limit\<close>
  taken. The length of the list is \<open>min(limit, max(0, size - offset))\<close>; an offset at or
  beyond the size gives the empty list, and so does the limit 0.
\<close>

theorem epochs_slice:
  assumes "loaded data svs"
    and "param a ''offset'' 0 ofs" and "0 \<le> ofs"
    and "param a ''limit'' (int (length svs)) l" and "0 \<le> l"
  shows "epochs data a = Inr (VList (take (nat l) (drop (nat ofs) (map epoch_of svs))))
       \<and> int (length (take (nat l) (drop (nat ofs) (map epoch_of svs))))
           = min l (max 0 (int (length svs) - ofs))
       \<and> (int (length svs) \<le> ofs \<longrightarrow> epochs data a = Inr (VList []))
       \<and> (l = 0 \<longrightarrow> epochs data a = Inr (VList []))"
proof -
  have e: "epochs data a = Inr (VList (take (nat l) (drop (nat ofs) (map epoch_of svs))))"
    using epochs_window [OF assms(1,2,4)] assms(5) by (simp add: window_def)
  have len: "int (length (take (nat l) (drop (nat ofs) (map epoch_of svs))))
           = min l (max 0 (int (length svs) - ofs))"
    using assms(3,5) by auto
  show ?thesis using e len assms(3) by auto
qed

theorem epochs_slice_witness:
  "loaded example_data example_vectors
   \<and> param [''offset'' \<mapsto> ''1'', ''limit'' \<mapsto> ''1''] ''offset'' 0 1
   \<and> param [''offset'' \<mapsto> ''1'', ''limit'' \<mapsto> ''1''] ''limit'' (int (length example_vectors)) 1
   \<and> epochs example_data [''offset'' \<mapsto> ''1'', ''limit'' \<mapsto> ''1'']
       = Inr (VList [VStr ''2023-048T12:04:00.000Z''])"
proof -
  have p1: "param [''offset'' \<mapsto> ''1'', ''limit'' \<mapsto> ''1''] ''offset'' 0 1"
    by (simp add: param_def int_eval)
  have p2: "param [''offset'' \<mapsto> ''1'', ''limit'' \<mapsto> ''1''] ''limit'' (int (length example_vectors)) 1"
    by (simp add: param_def int_eval)
  have "epochs example_data [''offset'' \<mapsto> ''1'', ''limit'' \<mapsto> ''1'']
       = Inr (VList (take (nat 1) (drop (nat 1) (map epoch_of example_vectors))))"
    using epochs_slice [OF loaded_example p1 _ p2] by simp
  then show ?thesis using loaded_example p1 p2
    by (simp add: example_vectors_def vector_def epoch_of_def)
qed

text \<open>
  C10: a negative integer in the query string is accepted. With a negative offset the
  test \<open>offset_count >= offset\<close> holds from the first state vector on, so nothing is
  skipped and the reply is the one for offset 0; with a negative limit the test
  \<open>count == limit\<close> never holds, so every state vector from the offset to the end is
  listed.
\<close>

theorem epochs_negative:
  assumes "loaded data svs"
    and "param a ''offset'' 0 ofs"
    and "param a ''limit'' (int (length svs)) l"
  shows "(ofs < 0 \<longrightarrow> epochs data a = Inr (VList (window 0 l (map epoch_of svs)))
                    \<and> epochs data a = epochs data (a(''offset'' \<mapsto> ''0'')))
       \<and> (l < 0 \<longrightarrow> epochs data a = Inr (VList (drop (nat ofs) (map epoch_of svs))))"
proof -
  have e: "epochs data a = Inr (VList (window ofs l (map epoch_of svs)))"
    using assms by (rule epochs_window)
  have z: "param (a(''offset'' \<mapsto> ''0'')) ''offset'' 0 0"
    by (simp add: param_def int_eval)
  have lim: "param (a(''offset'' \<mapsto> ''0'')) ''limit'' (int (length svs)) l"
    using assms(3) by (simp add: param_def)
  have e0: "epochs data (a(''offset'' \<mapsto> ''0'')) = Inr (VList (window 0 l (map epoch_of svs)))"
    using assms(1) z lim by (rule epochs_window)
  show ?thesis using e e0 by (auto simp: window_def)
qed

theorem epochs_negative_witness:
  "loaded example_data example_vectors
   \<and> param [''offset'' \<mapsto> ''-2'', ''limit'' \<mapsto> ''-1''] ''offset'' 0 (- 2)
   \<and> param [''offset'' \<mapsto> ''-2'', ''limit'' \<mapsto> ''-1''] ''limit'' (int (length example_vectors)) (- 1)
   \<and> epochs example_data [''offset'' \<mapsto> ''-2'', ''limit'' \<mapsto> ''-1'']
       = Inr (VList (map epoch_of example_vectors))"
proof -
  have p1: "param [''offset'' \<mapsto> ''-2'', ''limit'' \<mapsto> ''-1''] ''offset'' 0 (- 2)"
    by (simp add: param_def int_eval)
  have p2: "param [''offset'' \<mapsto> ''-2'', ''limit'' \<mapsto> ''-1''] ''limit'' (int (length example_vectors)) (- 1)"
    by (simp add: param_def int_eval)
  have "epochs example_data [''offset'' \<mapsto> ''-2'', ''limit'' \<mapsto> ''-1'']
       = Inr (VList (drop (nat (- 2)) (map epoch_of example_vectors)))"
    using epochs_negative [OF loaded_example p1 p2] by (simp add: window_def)
  then show ?thesis using loaded_example p1 p2 by simp
qed

text \<open>
  A supplied value that \<open>int\<close> rejects is answered with the handler's message, provided
  it is not the empty string, which the guards \<open>if offset:\<close> and \<open>if limit:\<close> pass on
  unconverted.
\<close>

lemma epochs_rejects_offset:
  assumes "loaded data svs" and "a ''offset'' = Some s" and "s \<noteq> []" and "int_of_str s = Inl e"
  shows "epochs data a = Inr (VStr ''Error: Offset parameter must be greater than 0.'')"
proof -
  from assms(1) have sv: "state_vectors data = Inr (VList svs)" by (simp add: loaded_def)
  have nd: "data \<noteq> VList []" using assms(1) by (rule loaded_not_deleted)
  have "int_of_str s = Inl ValueError" using assms(4) int_of_str_error by blast
  then have "convert_param (args_get a ''offset'' (VInt 0)) = Inr None"
    using assms(2,3) by (simp add: convert_param_def args_get_def)
  then show ?thesis using nd sv by (simp add: epochs_def)
qed

text \<open>
  C5: a supplied offset or limit that is not a non-negative integer is answered with an
  error and never with a list. The handler's own message asks for a parameter greater
  than 0, but the handler only catches the \<open>ValueError\<close> of \<open>int\<close>: the offset \<open>-1\<close>
  is answered with the list of all epochs.
\<close>

theorem epochs_accepts_negative_offset:
  "epochs example_data [''offset'' \<mapsto> ''-1'']
     = Inr (VList [VStr ''2023-048T12:00:00.000Z'', VStr ''2023-048T12:04:00.000Z'',
                   VStr ''2023-048T12:08:00.000Z''])"
  by (simp add: epochs_def doc_eval args_get_def convert_param_def int_eval)

section \<open>The lookup\<close>

lemma collect_epochs_all:
  "list_all has_epoch ds \<Longrightarrow> collect_epochs ds acc = Inr (acc @ map epoch_of ds)"
  by (induction ds arbitrary: acc) (simp_all add: has_epoch_getitem)

text \<open>\<open>allEpochs.index(epoch)\<close> is the position of the first state vector with that epoch.\<close>

lemma py_index_find:
  "find (\<lambda>d. epoch_of d = v) svs = Some d \<Longrightarrow>
   \<exists>i. py_index (map epoch_of svs) v = Inr i \<and> i < length svs \<and> svs ! i = d"
proof (induction svs)
  case Nil
  then show ?case by simp
next
  case (Cons x xs)
  show ?case
  proof (cases "epoch_of x = v")
    case True
    with Cons.prems show ?thesis by simp
  next
    case False
    with Cons.prems have "find (\<lambda>d. epoch_of d = v) xs = Some d" by simp
    from Cons.IH [OF this] obtain i where
      "py_index (map epoch_of xs) v = Inr i" "i < length xs" "xs ! i = d" by blast
    with False show ?thesis by simp
  qed
qed

lemma seq_index_nat: "i < n \<Longrightarrow> seq_index n (int i) = Some i"
  by (simp add: seq_index_def)

lemma state_vector_find:
  assumes "loaded data svs"
  shows "state_vector data v =
     Inr (case find (\<lambda>d. epoch_of d = v) svs of
            Some d \<Rightarrow> d
          | None \<Rightarrow> VStr ''Please enter a valid Epoch time stamp.\<newline>'')"
proof -
  from assms have sv: "state_vectors data = Inr (VList svs)" and wf: "list_all has_epoch svs"
    by (simp_all add: loaded_def)
  have nd: "data \<noteq> VList []" using assms by (rule loaded_not_deleted)
  have all: "collect_epochs svs [] = Inr (map epoch_of svs)"
    using collect_epochs_all [OF wf, of "[]"] by simp
  show ?thesis
  proof (cases "find (\<lambda>d. epoch_of d = v) svs")
    case None
    then have "v \<notin> set (map epoch_of svs)" by (auto simp: find_None_iff)
    with None nd sv all show ?thesis by (simp add: state_vector_def)
  next
    case (Some d)
    from py_index_find [OF Some] obtain i where
      i: "py_index (map epoch_of svs) v = Inr i" "i < length svs" "svs ! i = d" by blast
    from Some have "v \<in> set (map epoch_of svs)" by (auto simp: find_Some_iff)
    with Some nd sv all i show ?thesis by (simp add: state_vector_def seq_index_nat)
  qed
qed

text \<open>Whatever \<open>limit\<close> and \<open>offset\<close> are, the loop of \<open>epochs\<close> lists epochs of the
  document only.\<close>

lemma epochs_loop_subset:
  "epochs_loop limit offset ds c oc acc = Inr r \<Longrightarrow> set r \<subseteq> set acc \<union> epoch_of ` set ds"
proof (induction ds arbitrary: c oc acc)
  case Nil
  then show ?case by simp
next
  case (Cons d ds)
  show ?case
  proof (cases "int_eq c limit")
    case True
    with Cons.prems show ?thesis by auto
  next
    case stop: False
    show ?thesis
    proof (cases "int_ge oc offset")
      case (Inl e)
      with stop Cons.prems show ?thesis by simp
    next
      case (Inr b)
      show ?thesis
      proof (cases b)
        case True
        with stop Inr Cons.prems obtain ep where
          ep: "getitem d (VStr ''EPOCH'') = Inr ep"
          and rec: "epochs_loop limit offset ds (c + 1) (oc + 1) (acc @ [ep]) = Inr r"
          by (auto split: sum.splits)
        from ep have "epoch_of d = ep" by (simp add: epoch_of_def)
        with Cons.IH [OF rec] show ?thesis by auto
      next
        case False
        with stop Inr Cons.prems have "epochs_loop limit offset ds c (oc + 1) acc = Inr r"
          by simp
        from Cons.IH [OF this] show ?thesis by auto
      qed
    qed
  qed
qed

lemma epochs_listed:
  assumes "loaded data svs" and "epochs data a = Inr (VList es)"
  shows "set es \<subseteq> epoch_of ` set svs"
proof -
  from assms(1) have sv: "state_vectors data = Inr (VList svs)" by (simp add: loaded_def)
  have nd: "data \<noteq> VList []" using assms(1) by (rule loaded_not_deleted)
  from assms(2) nd sv obtain limit offset where
    "epochs_loop limit offset svs 0 0 [] = Inr es"
    by (auto simp: epochs_def bindE_def split: sum.splits option.splits)
  from epochs_loop_subset [OF this] show ?thesis by simp
qed

lemma listed_present:
  assumes "loaded data svs" and "v \<in> set (window ofs l (map epoch_of svs))"
  shows "\<exists>d. find (\<lambda>d. epoch_of d = v) svs = Some d"
proof -
  have "set (window ofs l (map epoch_of svs)) \<subseteq> set (map epoch_of svs)"
    using set_take_subset [of "nat l" "drop (nat ofs) (map epoch_of svs)"]
      set_drop_subset [of "nat ofs" "map epoch_of svs"]
    by (auto simp: window_def)
  with assms(2) have "v \<in> set (map epoch_of svs)" by blast
  then show ?thesis
    by (cases "find (\<lambda>d. epoch_of d = v) svs") (auto simp: find_None_iff)
qed

lemma default_params:
  "param Map.empty ''offset'' 0 0" "param Map.empty ''limit'' n n"
  by (simp_all add: param_def)

text \<open>
  C6: on a loaded document, \<open>/epochs/<epoch>\<close> returns the first state vector whose
  \<open>EPOCH\<close> is the string \<open>e\<close> itself, and the not-found message when there is none: a
  prefix of an epoch finds nothing. Every epoch that \<open>/epochs\<close> lists, under any query
  string, is found, and the state vector returned carries that epoch.
\<close>

theorem state_vector_exact:
  assumes "loaded data svs"
  shows "state_vector data (VStr e) =
           Inr (case find (\<lambda>d. epoch_of d = VStr e) svs of
                  Some d \<Rightarrow> d
                | None \<Rightarrow> VStr ''Please enter a valid Epoch time stamp.\<newline>'')
       \<and> (\<forall>es. epochs data a = Inr (VList es) \<longrightarrow>
            (\<forall>v \<in> set es. \<exists>d \<in> set svs. state_vector data v = Inr d \<and> epoch_of d = v))"
proof -
  have "\<exists>d \<in> set svs. state_vector data v = Inr d \<and> epoch_of d = v"
    if "epochs data a = Inr (VList es)" and "v \<in> set es" for es v
  proof -
    from epochs_listed [OF assms that(1)] that(2) have "v \<in> epoch_of ` set svs" by blast
    then obtain d where "find (\<lambda>d. epoch_of d = v) svs = Some d"
      by (cases "find (\<lambda>d. epoch_of d = v) svs") (auto simp: find_None_iff)
    moreover from this have "d \<in> set svs" "epoch_of d = v"
      by (auto simp: find_Some_iff)
    ultimately show ?thesis using state_vector_find [OF assms, of v] by auto
  qed
  with state_vector_find [OF assms, of "VStr e"] show ?thesis by blast
qed

theorem state_vector_exact_witness:
  "loaded example_data example_vectors
   \<and> state_vector example_data (VStr ''2023-048T12:04:00.000Z'')
       = Inr (vector ''2023-048T12:04:00.000Z'' ''-5998'' ''272'' ''-3177'' ''-2'' ''-6'' ''4'')
   \<and> state_vector example_data (VStr ''2023-048T12:04'')
       = Inr (VStr ''Please enter a valid Epoch time stamp.\<newline>'')
   \<and> epochs example_data Map.empty
       = Inr (VList [VStr ''2023-048T12:00:00.000Z'', VStr ''2023-048T12:04:00.000Z'',
                     VStr ''2023-048T12:08:00.000Z''])
   \<and> state_vector example_data (VStr ''2023-048T12:00:00.000Z'') = Inr (example_vectors ! 0)
   \<and> state_vector example_data (VStr ''2023-048T12:08:00.000Z'') = Inr (example_vectors ! 2)"
proof -
  have l: "epochs example_data Map.empty
     = Inr (VList [VStr ''2023-048T12:00:00.000Z'', VStr ''2023-048T12:04:00.000Z'',
                   VStr ''2023-048T12:08:00.000Z''])"
    by (simp add: epochs_def doc_eval args_get_def convert_param_def)
  have f0: "find (\<lambda>d. epoch_of d = VStr ''2023-048T12:00:00.000Z'') example_vectors
     = Some (example_vectors ! 0)"
    by (simp add: example_vectors_def vector_def epoch_of_def)
  have f1: "find (\<lambda>d. epoch_of d = VStr ''2023-048T12:04:00.000Z'') example_vectors
     = Some (vector ''2023-048T12:04:00.000Z'' ''-5998'' ''272'' ''-3177'' ''-2'' ''-6'' ''4'')"
    by (simp add: example_vectors_def vector_def epoch_of_def)
  have f2: "find (\<lambda>d. epoch_of d = VStr ''2023-048T12:08:00.000Z'') example_vectors
     = Some (example_vectors ! 2)"
    by (simp add: example_vectors_def vector_def epoch_of_def)
  have f3: "find (\<lambda>d. epoch_of d = VStr ''2023-048T12:04'') example_vectors = None"
    by (simp add: example_vectors_def vector_def epoch_of_def)
  show ?thesis
    using state_vector_exact [OF loaded_example, of "''2023-048T12:00:00.000Z''" Map.empty]
      state_vector_exact [OF loaded_example, of "''2023-048T12:04:00.000Z''" Map.empty]
      state_vector_exact [OF loaded_example, of "''2023-048T12:08:00.000Z''" Map.empty]
      state_vector_exact [OF loaded_example, of "''2023-048T12:04''" Map.empty]
      l f0 f1 f2 f3 loaded_example
    by simp
qed

section \<open>The speed\<close>

text \<open>
  An epoch is present for \<open>speed\<close> when \<open>epochs()\<close> lists it, and \<open>epochs()\<close> reads
  the query string of the request at hand: without \<open>offset\<close> and \<open>limit\<close> that is
  every epoch of the document.
\<close>

lemma speed_listed:
  assumes "loaded data svs"
    and "param a ''offset'' 0 ofs"
    and "param a ''limit'' (int (length svs)) l"
    and "VStr e \<in> set (window ofs l (map epoch_of svs))"
    and "find (\<lambda>d. epoch_of d = VStr e) svs = Some d"
    and "text_float float_of d ''X_DOT'' = Inr vx"
    and "text_float float_of d ''Y_DOT'' = Inr vy"
    and "text_float float_of d ''Z_DOT'' = Inr vz"
  shows "speed float_of data a (VStr e) =
           Inr (VDict [(''value'', VFloat (sqrt (vx\<^sup>2 + vy\<^sup>2 + vz\<^sup>2))), (''units'', VStr ''km/s'')])"
proof -
  have nd: "data \<noteq> VList []" using assms(1) by (rule loaded_not_deleted)
  have ep: "epochs data a = Inr (VList (window ofs l (map epoch_of svs)))"
    using assms(1-3) by (rule epochs_window)
  have sv: "state_vector data (VStr e) = Inr d"
    using state_vector_find [OF assms(1), of "VStr e"] assms(5) by simp
  show ?thesis using nd ep sv assms(4,6-8) by (simp add: speed_def)
qed

lemma sqrt_25: "sqrt ((3::real)\<^sup>2 + 4\<^sup>2 + 0\<^sup>2) = 5"
proof -
  have "sqrt ((3::real)\<^sup>2 + 4\<^sup>2 + 0\<^sup>2) = sqrt (5\<^sup>2)" by simp
  also have "\<dots> = 5" by simp
  finally show ?thesis .
qed

lemmas float_eval = text_float_def float_of_literal_def int_eval

text \<open>The document whose first state vector is \<open>vector e x y z sx sy sz\<close>.\<close>

lemma speed_first:
  assumes "float_of sx = Inr vx" and "float_of sy = Inr vy" and "float_of sz = Inr vz"
    and "list_all has_epoch rest"
  shows "speed float_of (document (vector e x y z sx sy sz # rest)) Map.empty (VStr e) =
           Inr (VDict [(''value'', VFloat (sqrt (vx\<^sup>2 + vy\<^sup>2 + vz\<^sup>2))), (''units'', VStr ''km/s'')])"
proof -
  let ?d = "vector e x y z sx sy sz"
  have l: "loaded (document (?d # rest)) (?d # rest)"
    using assms(4) by (simp add: document_def vector_def state_vectors_def loaded_def has_epoch_def)
  have p2: "param Map.empty ''limit'' (int (length (?d # rest))) (int (length (?d # rest)))"
    by (simp add: param_def)
  have w: "VStr e \<in> set (window 0 (int (length (?d # rest))) (map epoch_of (?d # rest)))"
    by (simp add: window_def vector_def epoch_of_def)
  have f: "find (\<lambda>d. epoch_of d = VStr e) (?d # rest) = Some ?d"
    by (simp add: vector_def epoch_of_def)
  have t: "text_float float_of ?d ''X_DOT'' = Inr vx" "text_float float_of ?d ''Y_DOT'' = Inr vy"
    "text_float float_of ?d ''Z_DOT'' = Inr vz"
    using assms(1-3) by (simp_all add: vector_def component_def text_float_def)
  show ?thesis using speed_listed [OF l default_params(1) p2 w f t] .
qed

text \<open>
  C4: for a present epoch, \<open>/epochs/<epoch>/speed\<close> returns the Euclidean norm
  \<open>sqrt(vx\<^sup>2 + vy\<^sup>2 + vz\<^sup>2)\<close> of the velocity that \<open>float\<close> reads from the
  state vector of that epoch, with the units \<open>km/s\<close>. The velocity (3, 4, 0) gives 5.
\<close>

theorem speed_norm:
  assumes "loaded data svs"
    and "param a ''offset'' 0 ofs"
    and "param a ''limit'' (int (length svs)) l"
    and "VStr e \<in> set (window ofs l (map epoch_of svs))"
    and "find (\<lambda>d. epoch_of d = VStr e) svs = Some d"
    and "text_float float_of d ''X_DOT'' = Inr vx"
    and "text_float float_of d ''Y_DOT'' = Inr vy"
    and "text_float float_of d ''Z_DOT'' = Inr vz"
  shows "speed float_of data a (VStr e) =
           Inr (VDict [(''value'', VFloat (sqrt (vx\<^sup>2 + vy\<^sup>2 + vz\<^sup>2))), (''units'', VStr ''km/s'')])"
  using assms by (rule speed_listed)

theorem speed_norm_witness:
  "loaded example_data example_vectors
   \<and> param Map.empty ''offset'' 0 0
   \<and> param Map.empty ''limit'' (int (length example_vectors)) 3
   \<and> VStr ''2023-048T12:00:00.000Z'' \<in> set (window 0 3 (map epoch_of example_vectors))
   \<and> find (\<lambda>d. epoch_of d = VStr ''2023-048T12:00:00.000Z'') example_vectors
       = Some (vector ''2023-048T12:00:00.000Z'' ''-5097'' ''1610'' ''-4194'' ''3'' ''4'' ''0'')
   \<and> text_float float_of_literal
         (vector ''2023-048T12:00:00.000Z'' ''-5097'' ''1610'' ''-4194'' ''3'' ''4'' ''0'') ''X_DOT'' = Inr 3
   \<and> text_float float_of_literal
         (vector ''2023-048T12:00:00.000Z'' ''-5097'' ''1610'' ''-4194'' ''3'' ''4'' ''0'') ''Y_DOT'' = Inr 4
   \<and> text_float float_of_literal
         (vector ''2023-048T12:00:00.000Z'' ''-5097'' ''1610'' ''-4194'' ''3'' ''4'' ''0'') ''Z_DOT'' = Inr 0
   \<and> speed float_of_literal example_data Map.empty (VStr ''2023-048T12:00:00.000Z'')
       = Inr (VDict [(''value'', VFloat 5), (''units'', VStr ''km/s'')])"
proof -
  let ?d = "vector ''2023-048T12:00:00.000Z'' ''-5097'' ''1610'' ''-4194'' ''3'' ''4'' ''0''"
  have p2: "param Map.empty ''limit'' (int (length example_vectors)) 3"
    by (simp add: param_def example_vectors_def)
  have w: "VStr ''2023-048T12:00:00.000Z'' \<in> set (window 0 3 (map epoch_of example_vectors))"
    by (simp add: window_def example_vectors_def vector_def epoch_of_def)
  have f: "find (\<lambda>d. epoch_of d = VStr ''2023-048T12:00:00.000Z'') example_vectors = Some ?d"
    by (simp add: example_vectors_def vector_def epoch_of_def)
  have x: "text_float float_of_literal ?d ''X_DOT'' = Inr 3"
    by (simp add: vector_def component_def float_eval)
  have y: "text_float float_of_literal ?d ''Y_DOT'' = Inr 4"
    by (simp add: vector_def component_def float_eval)
  have z: "text_float float_of_literal ?d ''Z_DOT'' = Inr 0"
    by (simp add: vector_def component_def float_eval)
  have "speed float_of_literal example_data Map.empty (VStr ''2023-048T12:00:00.000Z'')
       = Inr (VDict [(''value'', VFloat (sqrt (3\<^sup>2 + 4\<^sup>2 + 0\<^sup>2))), (''units'', VStr ''km/s'')])"
    using speed_norm [OF loaded_example default_params(1) p2 w f x y z] .
  then show ?thesis using loaded_example default_params(1) p2 w f x y z sqrt_25 by simp
qed

text \<open>
  C9, as amended: the speed does not change when the first two velocity components
  change places. For every velocity that \<open>float\<close> reads, the state vector with
  \<open>X_DOT\<close> and \<open>Y_DOT\<close> exchanged has the same speed.
\<close>

theorem speed_swap:
  assumes "float_of sx = Inr vx" and "float_of sy = Inr vy" and "float_of sz = Inr vz"
    and "list_all has_epoch rest"
  shows "speed float_of (document (vector e x y z sx sy sz # rest)) Map.empty (VStr e)
       = speed float_of (document (vector e x y z sy sx sz # rest)) Map.empty (VStr e)"
  using speed_first [OF assms(1,2,3,4)] speed_first [OF assms(2,1,3,4)]
  by (simp add: add.commute)

theorem speed_swap_witness:
  "float_of_literal ''3'' = Inr 3 \<and> float_of_literal ''4'' = Inr 4 \<and> float_of_literal ''0'' = Inr 0
   \<and> list_all has_epoch (tl example_vectors)
   \<and> speed float_of_literal
        (document (vector ''2023-048T12:00:00.000Z'' ''-5097'' ''1610'' ''-4194'' ''3'' ''4'' ''0''
                   # tl example_vectors))
        Map.empty (VStr ''2023-048T12:00:00.000Z'')
     = speed float_of_literal
        (document (vector ''2023-048T12:00:00.000Z'' ''-5097'' ''1610'' ''-4194'' ''4'' ''3'' ''0''
                   # tl example_vectors))
        Map.empty (VStr ''2023-048T12:00:00.000Z'')"
proof -
  have x: "float_of_literal ''3'' = Inr 3" by (simp add: float_eval)
  have y: "float_of_literal ''4'' = Inr 4" by (simp add: float_eval)
  have z: "float_of_literal ''0'' = Inr 0" by (simp add: float_eval)
  have r: "list_all has_epoch (tl example_vectors)"
    by (simp add: example_vectors_def vector_def has_epoch_def)
  show ?thesis using speed_swap [OF x y z r] x y z r by simp
qed

text \<open>C9 as stated, that some velocity has a speed which the exchange changes, is false.\<close>

theorem speed_swap_never_differs:
  "\<not> (\<exists>float_of e x y z sx sy sz vx vy vz rest.
        float_of sx = Inr vx \<and> float_of sy = Inr vy \<and> float_of sz = Inr vz
        \<and> list_all has_epoch rest
        \<and> speed float_of (document (vector e x y z sx sy sz # rest)) Map.empty (VStr e)
          \<noteq> speed float_of (document (vector e x y z sy sx sz # rest)) Map.empty (VStr e))"
proof
  assume "\<exists>float_of e x y z sx sy sz vx vy vz rest.
        float_of sx = Inr vx \<and> float_of sy = Inr vy \<and> float_of sz = Inr vz
        \<and> list_all has_epoch rest
        \<and> speed float_of (document (vector e x y z sx sy sz # rest)) Map.empty (VStr e)
          \<noteq> speed float_of (document (vector e x y z sy sx sz # rest)) Map.empty (VStr e)"
  then obtain float_of e x y z sx sy sz vx vy vz rest where
    p: "float_of sx = Inr vx" "float_of sy = Inr vy" "float_of sz = Inr vz"
      "list_all has_epoch rest"
    and ne: "speed float_of (document (vector e x y z sx sy sz # rest)) Map.empty (VStr e)
          \<noteq> speed float_of (document (vector e x y z sy sx sz # rest)) Map.empty (VStr e)"
    by blast
  from speed_first [OF p(1,2,3,4)] speed_first [OF p(2,1,3,4)] ne show False
    by (simp add: add.commute)
qed

section \<open>The location\<close>

lemma map_of_setitem: "map_of (setitem ps k v) k = Some v"
  by (induction ps) auto

text \<open>Outside the range the longitude is wrapped: 190 becomes -170 and -190 becomes 170.\<close>

lemma set_longitude_wraps:
  "180 < l \<Longrightarrow> getitem (VDict (set_longitude l ld)) (VStr ''LONGITUDE'') = Inr (VFloat (l - 360))"
  "l < - 180 \<Longrightarrow> getitem (VDict (set_longitude l ld)) (VStr ''LONGITUDE'') = Inr (VFloat (l + 360))"
  by (simp_all add: set_longitude_def map_of_setitem)

lemma set_longitude_examples:
  "getitem (VDict (set_longitude 190 ld)) (VStr ''LONGITUDE'') = Inr (VFloat (- 170))"
  "getitem (VDict (set_longitude (- 190) ld)) (VStr ''LONGITUDE'') = Inr (VFloat 170)"
  by (simp_all add: set_longitude_def map_of_setitem)

text \<open>
  C2: a raw longitude above 180 is reduced by 360, one below -180 is raised by 360, and
  one within the range is kept. Lines 284 to 287 have no branch for the third case: at
  the raw longitude 0 the dictionary, which holds the latitude only at that point, is
  left without \<open>LONGITUDE\<close>, and reading it, as line 292 does, is a \<open>KeyError\<close>.
\<close>

theorem set_longitude_in_range:
  "set_longitude 0 [(''LATITUDE'', VFloat lat)] = [(''LATITUDE'', VFloat lat)]
   \<and> getitem (VDict (set_longitude 0 [(''LATITUDE'', VFloat lat)])) (VStr ''LONGITUDE'')
       = Inl KeyError"
  by (simp add: set_longitude_def)

text \<open>
  C8: for a state vector with a well-formed epoch, \<open>/epochs/<epoch>/location\<close> computes
  latitude, raw longitude and altitude by the formulas of lines 281 to 290. The handler
  does not get that far: for every epoch that is present, line 274 raises
  \<open>TypeError\<close>, before hour, minute and position are read.
\<close>

theorem location_raises:
  assumes "loaded data svs"
    and "param a ''offset'' 0 ofs"
    and "param a ''limit'' (int (length svs)) l"
    and "VStr e \<in> set (window ofs l (map epoch_of svs))"
  shows "location float_of data a (VStr e) = Inl TypeError"
proof -
  have nd: "data \<noteq> VList []" using assms(1) by (rule loaded_not_deleted)
  have ep: "epochs data a = Inr (VList (window ofs l (map epoch_of svs)))"
    using assms(1-3) by (rule epochs_window)
  from listed_present [OF assms(1,4)] obtain d where
    "find (\<lambda>d. epoch_of d = VStr e) svs = Some d" by blast
  then have sv: "state_vector data (VStr e) = Inr d"
    using state_vector_find [OF assms(1), of "VStr e"] by simp
  show ?thesis using nd ep sv assms(4) by (simp add: location_def)
qed

theorem location_raises_witness:
  "loaded example_data example_vectors
   \<and> param Map.empty ''offset'' 0 0
   \<and> param Map.empty ''limit'' (int (length example_vectors)) 3
   \<and> VStr ''2023-048T12:00:00.000Z'' \<in> set (window 0 3 (map epoch_of example_vectors))
   \<and> location float_of_literal example_data Map.empty (VStr ''2023-048T12:00:00.000Z'')
       = Inl TypeError"
proof -
  have p2: "param Map.empty ''limit'' (int (length example_vectors)) 3"
    by (simp add: param_def example_vectors_def)
  have w: "VStr ''2023-048T12:00:00.000Z'' \<in> set (window 0 3 (map epoch_of example_vectors))"
    by (simp add: window_def example_vectors_def vector_def epoch_of_def)
  show ?thesis
    using location_raises [OF loaded_example default_params(1) p2 w] loaded_example
      default_params(1) p2 w
    by simp
qed

section \<open>The epoch nearest to now\<close>

lemma state_vectors_dict:
  assumes "state_vectors data = Inr sv"
  shows "\<exists>kvs. data = VDict kvs"
  using assms by (cases data) (simp_all add: state_vectors_def)

text \<open>
  Whatever \<open>data\<close> holds, \<open>now\<close> raises: where line 312 finds the state vectors,
  \<open>data\<close> is a dictionary with string keys, and \<open>data[0]\<close> at line 320 is a \<open>KeyError\<close>.
\<close>

lemma now_raises: "\<exists>e. now time_now epoch_time float_of data a = Inl e"
proof (cases "state_vectors data")
  case (Inl e)
  then show ?thesis by (simp add: now_def)
next
  case (Inr sv)
  from state_vectors_dict [OF this] obtain kvs where "data = VDict kvs" by blast
  with Inr show ?thesis by (simp add: now_def)
qed

text \<open>
  C3: on a non-empty store \<open>/now\<close> returns the state vector whose epoch is nearest to
  the current instant, the first one among equals, with the signed difference. On every
  loaded document the handler raises \<open>KeyError\<close> at line 320 instead, before the first
  epoch is parsed, whatever the clock and the calendar are.
\<close>

theorem now_loaded:
  assumes "loaded data svs"
  shows "now time_now epoch_time float_of data a = Inl KeyError"
proof -
  from assms have sv: "state_vectors data = Inr (VList svs)" by (simp add: loaded_def)
  from state_vectors_dict [OF sv] obtain kvs where "data = VDict kvs" by blast
  with sv show ?thesis by (simp add: now_def)
qed

theorem now_loaded_witness:
  "loaded example_data example_vectors
   \<and> now 1676635500 float_of_literal float_of_literal example_data Map.empty = Inl KeyError"
  using now_loaded [OF loaded_example] loaded_example by simp

section \<open>Deleted data\<close>

text \<open>After \<open>/delete-data\<close> the handlers that test \<open>data == []\<close> first return the empty
  list.\<close>

lemma queries_after_delete:
  "epochs (fst (delete_data data)) a = Inr (VList [])"
  "state_vector (fst (delete_data data)) epoch = Inr (VList [])"
  "speed float_of (fst (delete_data data)) a epoch = Inr (VList [])"
  "location float_of (fst (delete_data data)) a epoch = Inr (VList [])"
  "comment_list (fst (delete_data data)) = Inr (VList [])"
  "header_dict (fst (delete_data data)) = Inr (VList [])"
  "metadata (fst (delete_data data)) = Inr (VList [])"
  by (simp_all add: delete_data_def epochs_def state_vector_def speed_def location_def
      comment_list_def header_dict_def metadata_def)

text \<open>
  C7: with the store empty, every query returns an explicit empty result and none
  raises. \<open>now\<close> has the test for deleted data at line 315, but subscripts \<open>data\<close> at
  line 312 first: after \<open>/delete-data\<close> it raises \<open>TypeError\<close>.
\<close>

theorem now_after_delete:
  "now time_now epoch_time float_of (fst (delete_data data)) a = Inl TypeError"
  by (simp add: now_def delete_data_def state_vectors_def)

end
